theory Spec2Isabelle
  imports Main
begin

section \<open>Values, bytes and text\<close>

text \<open>
  Python \<^verbatim>\<open>bytes\<close> are lists of 8-bit characters. A Python \<^verbatim>\<open>str\<close> is
  represented by its UTF-8 encoding, so \<^verbatim>\<open>s.encode('utf-8')\<close> is the identity and
  \<^verbatim>\<open>b.decode('utf-8')\<close> succeeds exactly on the well-formed UTF-8 byte sequences
  (it raises UnicodeDecodeError on the others).
\<close>

type_synonym bytes = string
type_synonym pystr = string
type_synonym path = string

text \<open>
  The values a DICOM dataset hands out, as far as \<^verbatim>\<open>get_dicomfield\<close> tells them
  apart: \<^verbatim>\<open>None\<close>, an \<^verbatim>\<open>int\<close> (\<^verbatim>\<open>bool\<close> is a subclass of
  \<^verbatim>\<open>int\<close>), a \<^verbatim>\<open>str\<close>, and any other object (a MultiValue, a float, ...),
  which carries the text that \<^verbatim>\<open>str(value)\<close> gives for it.
\<close>

datatype pyvalue = PNone | PInt int | PBool bool | PStr pystr | POther pystr

text \<open>
  What a call of code outside this module does: it returns, raises IOError (OSError), or
  raises another Exception.
\<close>

datatype 'a outcome = Returns 'a | RaisesIOError | RaisesException

datatype error = UnboundLocalError | KeyError

text \<open>The result of \<^verbatim>\<open>regex.match(line)\<close>: no match, or a match with its group 1
  (which is \<^verbatim>\<open>None\<close> when the group took no part in the match).\<close>

datatype rmatch = NoMatch | Match "bytes option"

datatype warning =
    NotSiemens
  | PatternNotFound bytes path
  | CannotRead path
  | CouldNotExtract pystr path

datatype event = DcmRead path | Warn warning

text \<open>
  The collaborators of the module, as parameters: \<^verbatim>\<open>pydicom.dcmread\<close>, the
  \<^verbatim>\<open>get\<close> method of the dataset it returns (the dataset itself is opaque, of type
  \<open>'d\<close>; for a name the dataset lacks, \<^verbatim>\<open>get\<close> returns its default,
  \<^verbatim>\<open>None\<close>), the file system (\<^verbatim>\<open>open(file, 'rb')\<close> and reading all of it;
  \<open>None\<close> when the file cannot be opened), and \<^verbatim>\<open>re.compile\<close> on a pattern that
  holds regular-expression metacharacters in the field name (\<open>None\<close> when it raises
  \<^verbatim>\<open>re.error\<close>).
\<close>

record 'd externals =
  dcmread :: "path \<Rightarrow> 'd outcome"
  dataset_get :: "'d \<Rightarrow> pystr \<Rightarrow> pyvalue outcome"
  fopen :: "path \<Rightarrow> bytes option"
  re_compile_special :: "bytes \<Rightarrow> (bytes \<Rightarrow> rmatch) option"

subsection \<open>UTF-8\<close>

definition byte :: "char \<Rightarrow> nat" where
  "byte c = of_char c"

definition in_range :: "nat \<Rightarrow> nat \<Rightarrow> char \<Rightarrow> bool" where
  "in_range lo hi c = (lo \<le> byte c \<and> byte c \<le> hi)"

text \<open>For a lead byte: the number of continuation bytes and the range allowed for the
  first of them (overlong forms, surrogates and code points above U+10FFFF are not
  well formed).\<close>

definition utf8_lead :: "nat \<Rightarrow> (nat \<times> nat \<times> nat) option" where
  "utf8_lead n =
     (if n < 0x80 then Some (0, 0, 0)
      else if n < 0xC2 then None
      else if n \<le> 0xDF then Some (1, 0x80, 0xBF)
      else if n = 0xE0 then Some (2, 0xA0, 0xBF)
      else if n = 0xED then Some (2, 0x80, 0x9F)
      else if n \<le> 0xEF then Some (2, 0x80, 0xBF)
      else if n = 0xF0 then Some (3, 0x90, 0xBF)
      else if n \<le> 0xF3 then Some (3, 0x80, 0xBF)
      else if n = 0xF4 then Some (3, 0x80, 0x8F)
      else None)"

fun utf8_valid :: "bytes \<Rightarrow> bool" where
  "utf8_valid [] = True"
| "utf8_valid (b # bs) =
     (case utf8_lead (byte b) of
        None \<Rightarrow> False
      | Some (k, lo, hi) \<Rightarrow>
          if k = 0 then utf8_valid bs
          else k \<le> length bs \<and> in_range lo hi (hd bs)
               \<and> list_all (in_range 0x80 0xBF) (tl (take k bs))
               \<and> utf8_valid (drop k bs))"

text \<open>\<^verbatim>\<open>b.decode('utf-8')\<close>.\<close>

definition decode_utf8 :: "bytes \<Rightarrow> pystr outcome" where
  "decode_utf8 b = (if utf8_valid b then Returns b else RaisesException)"

section \<open>The vendor text dump\<close>

definition tab :: char where
  "tab = CHR 0x09"

definition newline :: char where
  "newline = CHR 0x0A"

text \<open>Iterating over a file opened in binary mode: the lines end after each newline
  byte and keep it; the last line has none when the file does not end with one.\<close>

fun readlines_from :: "bytes \<Rightarrow> bytes \<Rightarrow> bytes list" where
  "readlines_from acc [] = (if acc = [] then [] else [rev acc])"
| "readlines_from acc (c # cs) =
     (if c = newline then rev (c # acc) # readlines_from [] cs
      else readlines_from (c # acc) cs)"

definition readlines :: "bytes \<Rightarrow> bytes list" where
  "readlines content = readlines_from [] content"

text \<open>\<^verbatim>\<open>b'ASCCONV BEGIN' in content\<close>.\<close>

fun contains :: "bytes \<Rightarrow> bytes \<Rightarrow> bool" where
  "contains sub [] = (sub = [])"
| "contains sub (c # cs) = (take (length sub) (c # cs) = sub \<or> contains sub cs)"

definition is_dicomfile_siemens :: "'d externals \<Rightarrow> path \<Rightarrow> bool outcome" where
  "is_dicomfile_siemens ext file =
     (case fopen ext file of
        None \<Rightarrow> RaisesIOError
      | Some content \<Rightarrow> Returns (contains ''ASCCONV BEGIN'' content))"

text \<open>\<^verbatim>\<open>regexp = '^' + pattern + '\t = \t(.*)\n'\<close>, encoded.\<close>

definition separator :: bytes where
  "separator = [tab, CHR '' '', CHR ''='', CHR '' '', tab]"

definition regexp_of :: "pystr \<Rightarrow> bytes" where
  "regexp_of pattern = ''^'' @ pattern @ separator @ ''(.*)'' @ [newline]"

text \<open>The characters with a meaning of their own in a regular expression. A pattern
  without them stands for itself.\<close>

definition metacharacters :: "char list" where
  "metacharacters = ''.^$*+?{}[]|()'' @ [CHR 0x5C]"

definition literal :: "pystr \<Rightarrow> bool" where
  "literal pattern = list_all (\<lambda>c. \<not> List.member metacharacters c) pattern"

text \<open>
  Matching the regular expression of a literal field name at the start of a line: the
  line starts with the name and the separator; the group takes every byte up to the
  first newline (the dot matches any byte but the newline), and a newline must follow.
\<close>

definition match_literal :: "pystr \<Rightarrow> bytes \<Rightarrow> rmatch" where
  "match_literal pattern line =
     (let pre = pattern @ separator in
      if take (length pre) line = pre then
        (let rest = drop (length pre) line in
         case dropWhile (\<lambda>c. c \<noteq> newline) rest of
           [] \<Rightarrow> NoMatch
         | _ # _ \<Rightarrow> Match (Some (takeWhile (\<lambda>c. c \<noteq> newline) rest)))
      else NoMatch)"

text \<open>\<^verbatim>\<open>re.compile(regexp.encode('utf-8'))\<close>.\<close>

definition re_compile :: "'d externals \<Rightarrow> pystr \<Rightarrow> (bytes \<Rightarrow> rmatch) option" where
  "re_compile ext pattern =
     (if literal pattern then Some (match_literal pattern)
      else re_compile_special ext (regexp_of pattern))"

text \<open>\<^verbatim>\<open>match.group(1).decode('utf-8')\<close>; \<^verbatim>\<open>None.decode\<close> raises
  AttributeError.\<close>

definition decode_group :: "bytes option \<Rightarrow> pystr option outcome" where
  "decode_group group1 =
     (case group1 of
        None \<Rightarrow> RaisesException
      | Some g \<Rightarrow>
          (case decode_utf8 g of
             Returns s \<Rightarrow> Returns (Some s)
           | RaisesIOError \<Rightarrow> RaisesIOError
           | RaisesException \<Rightarrow> RaisesException))"

text \<open>The loop over the lines of the open file: the first line that matches ends
  it.\<close>

fun scan_lines :: "(bytes \<Rightarrow> rmatch) \<Rightarrow> bytes list \<Rightarrow> pystr option outcome" where
  "scan_lines regex [] = Returns None"
| "scan_lines regex (line # rest) =
     (case regex line of
        NoMatch \<Rightarrow> scan_lines regex rest
      | Match group1 \<Rightarrow> decode_group group1)"

definition parse_from_x_protocol ::
  "'d externals \<Rightarrow> pystr \<Rightarrow> path \<Rightarrow> event list \<times> pystr option outcome" where
  "parse_from_x_protocol ext pattern dicomfile =
     (case is_dicomfile_siemens ext dicomfile of
        RaisesIOError \<Rightarrow> ([], RaisesIOError)
      | RaisesException \<Rightarrow> ([], RaisesException)
      | Returns siemens \<Rightarrow>
          (let w = (if siemens then [] else [Warn NotSiemens]) in
           case re_compile ext pattern of
             None \<Rightarrow> (w, RaisesException)
           | Some regex \<Rightarrow>
               (case fopen ext dicomfile of
                  None \<Rightarrow> (w, RaisesIOError)
                | Some content \<Rightarrow>
                    (case scan_lines regex (readlines content) of
                       Returns None \<Rightarrow>
                         (w @ [Warn (PatternNotFound (regexp_of pattern) dicomfile)],
                          Returns None)
                     | r \<Rightarrow> (w, r)))))"

section \<open>The tag resolver\<close>

text \<open>The two module globals, \<^verbatim>\<open>_DICOMDICT_MEMO\<close> and \<^verbatim>\<open>_DICOMFILE_MEMO\<close>,
  both \<^verbatim>\<open>None\<close> when the module is loaded.\<close>

record 'd memo =
  DICOMDICT_MEMO :: "'d option"
  DICOMFILE_MEMO :: "path option"

definition memo_init :: "'d memo" where
  "memo_init = \<lparr>DICOMDICT_MEMO = None, DICOMFILE_MEMO = None\<rparr>"

text \<open>The body of the outer \<^verbatim>\<open>try\<close>: the memo test, the parse, the two assignments
  to the globals, and the lookup. \<^verbatim>\<open>None.get\<close> raises AttributeError.\<close>

definition structured_lookup ::
  "'d externals \<Rightarrow> 'd memo \<Rightarrow> pystr \<Rightarrow> path \<Rightarrow> 'd memo \<times> event list \<times> pyvalue outcome" where
  "structured_lookup ext m tagname dicomfile =
     (if Some dicomfile \<noteq> DICOMFILE_MEMO m then
        (case dcmread ext dicomfile of
           Returns dicomdict \<Rightarrow>
             (\<lparr>DICOMDICT_MEMO = Some dicomdict, DICOMFILE_MEMO = Some dicomfile\<rparr>,
              [DcmRead dicomfile], dataset_get ext dicomdict tagname)
         | RaisesIOError \<Rightarrow> (m, [DcmRead dicomfile], RaisesIOError)
         | RaisesException \<Rightarrow> (m, [DcmRead dicomfile], RaisesException))
      else
        (case DICOMDICT_MEMO m of
           None \<Rightarrow> (m, [], RaisesException)
         | Some dicomdict \<Rightarrow> (m, [], dataset_get ext dicomdict tagname)))"

text \<open>The cast at the end: \<^verbatim>\<open>int(value)\<close> for an \<^verbatim>\<open>int\<close>, \<^verbatim>\<open>str(value)\<close>
  for everything else.\<close>

fun cast :: "pyvalue \<Rightarrow> pyvalue" where
  "cast (PInt i) = PInt i"
| "cast (PBool b) = PInt (if b then 1 else 0)"
| "cast (PStr s) = PStr s"
| "cast PNone = PStr ''None''"
| "cast (POther s) = PStr s"

text \<open>
  \<^verbatim>\<open>get_dicomfield\<close>. After the handler of IOError the local \<^verbatim>\<open>value\<close> has
  never been assigned, and the cast that reads it raises UnboundLocalError. Any other
  Exception of the \<^verbatim>\<open>try\<close> body leads to \<^verbatim>\<open>parse_from_x_protocol\<close>; an Exception
  there sets \<^verbatim>\<open>value = None\<close> and warns.
\<close>

definition get_dicomfield ::
  "'d externals \<Rightarrow> 'd memo \<Rightarrow> pystr \<Rightarrow> path \<Rightarrow> 'd memo \<times> event list \<times> (error + pyvalue)" where
  "get_dicomfield ext m tagname dicomfile =
     (case structured_lookup ext m tagname dicomfile of
        (m', evs, Returns v) \<Rightarrow> (m', evs, Inr (cast v))
      | (m', evs, RaisesIOError) \<Rightarrow>
          (m', evs @ [Warn (CannotRead dicomfile)], Inl UnboundLocalError)
      | (m', evs, RaisesException) \<Rightarrow>
          (case parse_from_x_protocol ext tagname dicomfile of
             (evs2, Returns None) \<Rightarrow> (m', evs @ evs2, Inr (cast PNone))
           | (evs2, Returns (Some s)) \<Rightarrow> (m', evs @ evs2, Inr (cast (PStr s)))
           | (evs2, _) \<Rightarrow>
               (m', evs @ evs2 @ [Warn (CouldNotExtract tagname dicomfile)],
                Inr (cast PNone))))"

section \<open>The series matcher\<close>

text \<open>
  A series is a Python dict: the key \<^verbatim>\<open>'attributes'\<close> holds the dict of the
  attributes, every other key holds a label. The model keeps the items in the order the
  dict iterates them (insertion order, keys distinct): \<open>Attributes a\<close> is the item of the
  key \<^verbatim>\<open>'attributes'\<close>, \<open>Label k v\<close> the item of another key \<open>k\<close>. The values of
  attributes and labels are \<^verbatim>\<open>None\<close>, an \<^verbatim>\<open>int\<close> or a \<^verbatim>\<open>str\<close>, for which
  \<^verbatim>\<open>==\<close> is equality.
\<close>

datatype scalar = SNone | SInt int | SStr pystr

type_synonym attributeset = "(pystr \<times> scalar) list"

datatype entry = Attributes attributeset | Label pystr scalar

type_synonym series = "entry list"

text \<open>\<^verbatim>\<open>series['attributes']\<close> and \<^verbatim>\<open>series[key]\<close> for a label key; \<open>None\<close> is
  KeyError.\<close>

fun getitem_attributes :: "series \<Rightarrow> attributeset option" where
  "getitem_attributes [] = None"
| "getitem_attributes (Attributes a # es) = Some a"
| "getitem_attributes (Label k v # es) = getitem_attributes es"

fun getitem_label :: "series \<Rightarrow> pystr \<Rightarrow> scalar option" where
  "getitem_label [] key = None"
| "getitem_label (Attributes a # es) key = getitem_label es key"
| "getitem_label (Label k v # es) key = (if k = key then Some v else getitem_label es key)"

text \<open>\<^verbatim>\<open>any([series['attributes'][key] is not None for key in series['attributes']])\<close>.\<close>

definition any_not_none :: "attributeset \<Rightarrow> bool" where
  "any_not_none attrs = list_ex (\<lambda>kv. snd kv \<noteq> SNone) attrs"

text \<open>The loop over the attribute keys of the series, against one item of the list.
  \<open>None\<close>: a subscript raised KeyError, which leaves the loop.\<close>

fun compare_attributes :: "attributeset \<Rightarrow> series \<Rightarrow> bool \<Rightarrow> bool option" where
  "compare_attributes [] item match = Some match"
| "compare_attributes ((attrkey, seriesvalue) # rest) item match =
     (case getitem_attributes item of
        None \<Rightarrow> None
      | Some itemattrs \<Rightarrow>
          (case map_of itemattrs attrkey of
             None \<Rightarrow> None
           | Some itemvalue \<Rightarrow>
               compare_attributes rest item (match \<and> seriesvalue = itemvalue)))"

text \<open>The \<^verbatim>\<open>try\<close> statement for one key of the series: KeyError makes \<open>match\<close>
  false.\<close>

definition compare_key :: "attributeset \<Rightarrow> entry \<Rightarrow> series \<Rightarrow> bool \<Rightarrow> bool \<Rightarrow> bool" where
  "compare_key attrs e item matchbidslabels match =
     (case e of
        Attributes a \<Rightarrow>
          (case compare_attributes attrs item match of None \<Rightarrow> False | Some match' \<Rightarrow> match')
      | Label key seriesvalue \<Rightarrow>
          if matchbidslabels then
            (case getitem_label item key of
               None \<Rightarrow> False
             | Some itemvalue \<Rightarrow> match \<and> seriesvalue = itemvalue)
          else match)"

text \<open>The loop over the keys of the series, left at the first mismatch.\<close>

fun compare_keys :: "attributeset \<Rightarrow> entry list \<Rightarrow> series \<Rightarrow> bool \<Rightarrow> bool \<Rightarrow> bool" where
  "compare_keys attrs [] item matchbidslabels match = match"
| "compare_keys attrs (e # es) item matchbidslabels match =
     (let match' = compare_key attrs e item matchbidslabels match in
      if \<not> match' then match' else compare_keys attrs es item matchbidslabels match')"

text \<open>The loop over the list, left with \<^verbatim>\<open>True\<close> at the first item that matches.\<close>

fun search_series :: "attributeset \<Rightarrow> series \<Rightarrow> series list \<Rightarrow> bool \<Rightarrow> bool" where
  "search_series attrs series [] matchbidslabels = False"
| "search_series attrs series (item # rest) matchbidslabels =
     (let match = compare_keys attrs series item matchbidslabels (any_not_none attrs) in
      if match then True else search_series attrs series rest matchbidslabels)"

text \<open>\<^verbatim>\<open>exist_series\<close>. With an empty list no statement of the loop runs; otherwise
  \<^verbatim>\<open>series['attributes']\<close> is read outside the \<^verbatim>\<open>try\<close>, and its KeyError reaches
  the caller.\<close>

definition exist_series :: "series \<Rightarrow> series list \<Rightarrow> bool \<Rightarrow> error + bool" where
  "exist_series series serieslist matchbidslabels =
     (case serieslist of
        [] \<Rightarrow> Inr False
      | _ # _ \<Rightarrow>
          (case getitem_attributes series of
             None \<Rightarrow> Inl KeyError
           | Some attrs \<Rightarrow> Inr (search_series attrs series serieslist matchbidslabels)))"

subsection \<open>The body of the function, statement by statement\<close>

text \<open>
  The same function once more, as the statements of its body acting on a frame: the
  three arguments (the objects the caller passed) and the local names the body assigns
  (\<^verbatim>\<open>match\<close>, \<^verbatim>\<open>seriesvalue\<close>, \<^verbatim>\<open>itemvalue\<close>; the loop variables are the
  arguments of the loop functions). Each assignment is an update of the frame. A
  \<^verbatim>\<open>for\<close> loop runs over the items its object holds when the loop starts.
\<close>

record frame =
  arg_series :: series
  arg_serieslist :: "series list"
  arg_matchbidslabels :: bool
  var_match :: bool
  var_seriesvalue :: scalar
  var_itemvalue :: scalar

definition arguments :: "frame \<Rightarrow> series \<times> series list \<times> bool" where
  "arguments st = (arg_series st, arg_serieslist st, arg_matchbidslabels st)"

text \<open>The loop over the attribute keys; the flag tells that a subscript raised
  KeyError.\<close>

fun attributes_loop :: "attributeset \<Rightarrow> series \<Rightarrow> frame \<Rightarrow> frame \<times> bool" where
  "attributes_loop [] item st = (st, False)"
| "attributes_loop ((attrkey, v) # rest) item st =
     (let st1 = st\<lparr>var_seriesvalue := v\<rparr> in
      case getitem_attributes item of
        None \<Rightarrow> (st1, True)
      | Some itemattrs \<Rightarrow>
          (case map_of itemattrs attrkey of
             None \<Rightarrow> (st1, True)
           | Some iv \<Rightarrow>
               (let st2 = st1\<lparr>var_itemvalue := iv\<rparr>;
                    st3 = st2\<lparr>var_match :=
                            (var_match st2 \<and> var_seriesvalue st2 = var_itemvalue st2)\<rparr>
                in attributes_loop rest item st3)))"

text \<open>The \<^verbatim>\<open>try\<close> statement for one key, with its handler
  \<^verbatim>\<open>match = False\<close>.\<close>

definition try_key :: "entry \<Rightarrow> series \<Rightarrow> frame \<Rightarrow> frame" where
  "try_key e item st =
     (case e of
        Attributes a \<Rightarrow>
          (case getitem_attributes (arg_series st) of
             None \<Rightarrow> st\<lparr>var_match := False\<rparr>
           | Some attrs \<Rightarrow>
               (case attributes_loop attrs item st of
                  (st', raised) \<Rightarrow> if raised then st'\<lparr>var_match := False\<rparr> else st'))
      | Label key v \<Rightarrow>
          if arg_matchbidslabels st then
            (let st1 = st\<lparr>var_seriesvalue := v\<rparr> in
             case getitem_label item key of
               None \<Rightarrow> st1\<lparr>var_match := False\<rparr>
             | Some iv \<Rightarrow>
                 (let st2 = st1\<lparr>var_itemvalue := iv\<rparr> in
                  st2\<lparr>var_match :=
                        (var_match st2 \<and> var_seriesvalue st2 = var_itemvalue st2)\<rparr>))
          else st)"

fun keys_loop :: "entry list \<Rightarrow> series \<Rightarrow> frame \<Rightarrow> frame" where
  "keys_loop [] item st = st"
| "keys_loop (e # es) item st =
     (let st' = try_key e item st in
      if \<not> var_match st' then st' else keys_loop es item st')"

fun items_loop :: "series list \<Rightarrow> frame \<Rightarrow> frame \<times> (error + bool)" where
  "items_loop [] st = (st, Inr False)"
| "items_loop (item # rest) st =
     (case getitem_attributes (arg_series st) of
        None \<Rightarrow> (st, Inl KeyError)
      | Some attrs \<Rightarrow>
          (let st1 = st\<lparr>var_match := any_not_none attrs\<rparr>;
               st2 = keys_loop (arg_series st1) item st1
           in if var_match st2 then (st2, Inr True) else items_loop rest st2))"

definition exist_series_body :: "frame \<Rightarrow> frame \<times> (error + bool)" where
  "exist_series_body st = items_loop (arg_serieslist st) st"

section \<open>Events\<close>

text \<open>The warnings and the calls of \<^verbatim>\<open>pydicom.dcmread\<close> among the events of a
  call, in order.\<close>

fun warnings_of :: "event list \<Rightarrow> warning list" where
  "warnings_of [] = []"
| "warnings_of (Warn w # evs) = w # warnings_of evs"
| "warnings_of (DcmRead f # evs) = warnings_of evs"

fun dcmreads_of :: "event list \<Rightarrow> path list" where
  "dcmreads_of [] = []"
| "dcmreads_of (Warn w # evs) = dcmreads_of evs"
| "dcmreads_of (DcmRead f # evs) = f # dcmreads_of evs"

text \<open>The calls of \<^verbatim>\<open>pydicom.dcmread\<close> that returned a dictionary.\<close>

definition parses_of :: "'d externals \<Rightarrow> event list \<Rightarrow> path list" where
  "parses_of ext evs =
     filter (\<lambda>f. case dcmread ext f of Returns d \<Rightarrow> True | RaisesIOError \<Rightarrow> False
                  | RaisesException \<Rightarrow> False)
       (dcmreads_of evs)"

section \<open>Scenarios\<close>

text \<open>
  A small world for the scenarios. \<^verbatim>\<open>siemens.dcm\<close> parses to dataset 1 and carries a
  protocol dump; \<^verbatim>\<open>plain.dcm\<close> parses to dataset 2 and carries no dump.
  \<^verbatim>\<open>protocol.dcm\<close> and \<^verbatim>\<open>garbled.dcm\<close> can be opened but are no DICOM files:
  \<^verbatim>\<open>pydicom.dcmread\<close> refuses them with InvalidDicomError. The first has the bytes of
  \<^verbatim>\<open>siemens.dcm\<close>; the second has one line of the protocol form whose value is the
  byte \<^verbatim>\<open>0xFF\<close>, which is not UTF-8. \<^verbatim>\<open>missing.dcm\<close> cannot be opened. The
  datasets know \<^verbatim>\<open>PatientName\<close> (a text), \<^verbatim>\<open>Rows\<close> (a number) and
  \<^verbatim>\<open>PixelSpacing\<close> (a MultiValue); for any other name \<^verbatim>\<open>get\<close> returns
  \<^verbatim>\<open>None\<close>.
\<close>

definition siemens_content :: bytes where
  "siemens_content =
     ''### ASCCONV BEGIN ###'' @ [newline]
     @ ''SliceThickness'' @ separator @ ''2.5'' @ [newline]
     @ ''### ASCCONV END ###'' @ [newline]"

definition plain_content :: bytes where
  "plain_content = ''DICM'' @ [newline] @ ''pixels''"

definition garbled_content :: bytes where
  "garbled_content = ''SliceThickness'' @ separator @ [CHR 0xFF] @ [newline]"

definition world :: "nat externals" where
  "world =
     \<lparr>dcmread = (\<lambda>f. if f = ''siemens.dcm'' then Returns 1
                     else if f = ''plain.dcm'' then Returns 2
                     else if f = ''protocol.dcm'' then RaisesException
                     else if f = ''garbled.dcm'' then RaisesException
                     else RaisesIOError),
      dataset_get = (\<lambda>d tagname. if tagname = ''PatientName'' then Returns (PStr ''Doe'')
                     else if tagname = ''Rows'' then Returns (PInt 256)
                     else if tagname = ''PixelSpacing'' then Returns (POther ''[0.5, 0.5]'')
                     else Returns PNone),
      fopen = (\<lambda>f. if f = ''siemens.dcm'' then Some siemens_content
                   else if f = ''plain.dcm'' then Some plain_content
                   else if f = ''protocol.dcm'' then Some siemens_content
                   else if f = ''garbled.dcm'' then Some garbled_content
                   else None),
      re_compile_special = (\<lambda>regexp. None)\<rparr>"

text \<open>The globals after a call on \<^verbatim>\<open>siemens.dcm\<close>.\<close>

definition memo_siemens :: "nat memo" where
  "memo_siemens = \<lparr>DICOMDICT_MEMO = Some 1, DICOMFILE_MEMO = Some ''siemens.dcm''\<rparr>"

text \<open>The records of the scenarios of the matcher.\<close>

definition series_func :: series where
  "series_func =
     [Attributes [(''a'', SInt 1), (''b'', SStr ''x'')], Label ''modality'' (SStr ''func'')]"

definition series_anat :: series where
  "series_anat =
     [Attributes [(''a'', SInt 1), (''b'', SStr ''x'')], Label ''modality'' (SStr ''anat'')]"

definition series_absent_func :: series where
  "series_absent_func =
     [Attributes [(''a'', SNone), (''b'', SNone)], Label ''modality'' (SStr ''func'')]"

definition series_absent_anat :: series where
  "series_absent_anat =
     [Attributes [(''a'', SNone), (''b'', SNone)], Label ''modality'' (SStr ''anat'')]"

text \<open>A frame at the call \<^verbatim>\<open>exist_series(series_anat, [series_func, series_anat])\<close>
  (the values of the local names are placeholders: the body assigns each before it
  reads it), and one with other placeholders.\<close>

definition frame_anat :: frame where
  "frame_anat =
     \<lparr>arg_series = series_anat, arg_serieslist = [series_func, series_anat],
      arg_matchbidslabels = True,
      var_match = False, var_seriesvalue = SNone, var_itemvalue = SNone\<rparr>"

definition frame_anat_other :: frame where
  "frame_anat_other =
     \<lparr>arg_series = series_anat, arg_serieslist = [series_func, series_anat],
      arg_matchbidslabels = True,
      var_match = True, var_seriesvalue = SInt 7, var_itemvalue = SStr ''y''\<rparr>"

section \<open>Properties\<close>

subsection \<open>Auxiliary facts\<close>

lemma cast_int_or_str: "(\<exists>i. cast v = PInt i) \<or> (\<exists>s. cast v = PStr s)"
  by (cases v) simp_all

lemma warnings_of_append: "warnings_of (xs @ ys) = warnings_of xs @ warnings_of ys"
  by (induction xs rule: warnings_of.induct) simp_all

lemma dcmreads_of_append: "dcmreads_of (xs @ ys) = dcmreads_of xs @ dcmreads_of ys"
  by (induction xs rule: dcmreads_of.induct) simp_all

lemma structured_lookup_warnings: "warnings_of (fst (snd (structured_lookup ext m t f))) = []"
  by (simp add: structured_lookup_def split: outcome.splits option.splits)

lemma structured_lookup_io:
  assumes "Some f \<noteq> DICOMFILE_MEMO m" and "dcmread ext f = RaisesIOError"
  shows "structured_lookup ext m t f = (m, [DcmRead f], RaisesIOError)"
  using assms by (simp add: structured_lookup_def)

lemma decode_group_not_none: "decode_group g \<noteq> Returns None"
  by (simp add: decode_group_def split: option.splits outcome.splits)

lemma scan_lines_find:
  "scan_lines regex ls =
     (case List.find (\<lambda>l. regex l \<noteq> NoMatch) ls of
        None \<Rightarrow> Returns None
      | Some l \<Rightarrow> (case regex l of NoMatch \<Rightarrow> Returns None | Match g \<Rightarrow> decode_group g))"
  by (induction ls) (simp_all split: rmatch.splits)

lemma scan_lines_skip:
  "list_all (\<lambda>l. regex l = NoMatch) ls1 \<Longrightarrow> scan_lines regex (ls1 @ ls2) = scan_lines regex ls2"
  by (induction ls1) simp_all

lemma scan_lines_none:
  "list_all (\<lambda>l. regex l = NoMatch) ls \<Longrightarrow> scan_lines regex ls = Returns None"
  by (induction ls) simp_all

lemma match_literal_line:
  assumes "newline \<notin> set v"
  shows "match_literal p (p @ separator @ v @ [newline]) = Match (Some v)"
proof -
  have d: "dropWhile (\<lambda>c. c \<noteq> newline) (v @ [newline]) = [newline]"
    using assms by (induction v) auto
  have t: "takeWhile (\<lambda>c. c \<noteq> newline) (v @ [newline]) = v"
    using assms by (induction v) auto
  show ?thesis
    using d t by (simp add: match_literal_def Let_def)
qed

lemma parse_not_found:
  assumes "fopen ext f = Some content"
    and "re_compile ext p = Some regex"
    and "scan_lines regex (readlines content) = Returns None"
  shows "parse_from_x_protocol ext p f =
           ((if contains ''ASCCONV BEGIN'' content then [] else [Warn NotSiemens])
              @ [Warn (PatternNotFound (regexp_of p) f)], Returns None)"
  using assms by (simp add: parse_from_x_protocol_def is_dicomfile_siemens_def Let_def)

lemma get_dicomfield_io:
  assumes "structured_lookup ext m t f = (m', evs, RaisesIOError)"
  shows "get_dicomfield ext m t f = (m', evs @ [Warn (CannotRead f)], Inl UnboundLocalError)"
  using assms by (simp add: get_dicomfield_def)

lemma get_dicomfield_fallback:
  assumes "structured_lookup ext m t f = (m', evs, RaisesException)"
  shows "get_dicomfield ext m t f =
           (case parse_from_x_protocol ext t f of
              (evs2, Returns None) \<Rightarrow> (m', evs @ evs2, Inr (PStr ''None''))
            | (evs2, Returns (Some s)) \<Rightarrow> (m', evs @ evs2, Inr (PStr s))
            | (evs2, RaisesIOError) \<Rightarrow>
                (m', evs @ evs2 @ [Warn (CouldNotExtract t f)], Inr (PStr ''None''))
            | (evs2, RaisesException) \<Rightarrow>
                (m', evs @ evs2 @ [Warn (CouldNotExtract t f)], Inr (PStr ''None'')))"
  using assms by (simp add: get_dicomfield_def split: prod.splits outcome.splits option.splits)

lemma get_dicomfield_memo: "fst (get_dicomfield ext m t f) = fst (structured_lookup ext m t f)"
  by (simp add: get_dicomfield_def split: prod.splits outcome.splits option.splits)

lemma get_dicomfield_dcmreads:
  "dcmreads_of (fst (snd (get_dicomfield ext m t f)))
     = dcmreads_of (fst (snd (structured_lookup ext m t f)))"
  by (simp add: get_dicomfield_def parse_from_x_protocol_def Let_def dcmreads_of_append
      split: prod.splits outcome.splits option.splits)

lemma structured_lookup_dcmreads:
  "dcmreads_of (fst (snd (structured_lookup ext m t f)))
     = (if Some f \<noteq> DICOMFILE_MEMO m then [f] else [])"
  by (simp add: structured_lookup_def split: option.splits outcome.splits)

lemma structured_lookup_memo:
  "fst (structured_lookup ext m t f)
     = (if Some f \<noteq> DICOMFILE_MEMO m then
          (case dcmread ext f of
             Returns d \<Rightarrow> \<lparr>DICOMDICT_MEMO = Some d, DICOMFILE_MEMO = Some f\<rparr>
           | RaisesIOError \<Rightarrow> m
           | RaisesException \<Rightarrow> m)
        else m)"
  by (simp add: structured_lookup_def split: option.splits outcome.splits)

lemma structured_lookup_parsed:
  assumes "dcmread ext f = Returns d"
    and "dataset_get ext d t = Returns v"
    and "DICOMFILE_MEMO m = Some f \<longrightarrow> DICOMDICT_MEMO m = Some d"
  shows "snd (snd (structured_lookup ext m t f)) = Returns v"
  using assms by (auto simp: structured_lookup_def)

lemma get_dicomfield_returns:
  assumes "snd (snd (structured_lookup ext m t f)) = Returns v"
  shows "snd (snd (get_dicomfield ext m t f)) = Inr (cast v)
         \<and> warnings_of (fst (snd (get_dicomfield ext m t f))) = []"
  using assms structured_lookup_warnings [of ext m t f]
  by (cases "structured_lookup ext m t f") (simp add: get_dicomfield_def)

lemma match_literal_nomatch:
  assumes "\<forall>g r. l \<noteq> p @ separator @ g @ newline # r"
  shows "match_literal p l = NoMatch"
proof (rule ccontr)
  assume n: "match_literal p l \<noteq> NoMatch"
  let ?n = "length p + length separator"
  let ?rest = "drop ?n l"
  from n have pre: "take ?n l = p @ separator"
    by (auto simp: match_literal_def Let_def split: if_splits)
  then have "match_literal p l =
      (case dropWhile (\<lambda>c. c \<noteq> newline) ?rest of
         [] \<Rightarrow> NoMatch
       | _ # _ \<Rightarrow> Match (Some (takeWhile (\<lambda>c. c \<noteq> newline) ?rest)))"
    by (simp add: match_literal_def Let_def)
  with n have "dropWhile (\<lambda>c. c \<noteq> newline) ?rest \<noteq> []"
    by (metis list.simps(4))
  then obtain x r where d: "dropWhile (\<lambda>c. c \<noteq> newline) ?rest = x # r"
    by (meson neq_Nil_conv)
  have "x = newline"
    using hd_dropWhile [of "\<lambda>c. c \<noteq> newline" ?rest] d by simp
  then have "?rest = takeWhile (\<lambda>c. c \<noteq> newline) ?rest @ newline # r"
    using takeWhile_dropWhile_id [of "\<lambda>c. c \<noteq> newline" ?rest] d by simp
  moreover have "l = (p @ separator) @ ?rest"
    using pre append_take_drop_id [of ?n l] by simp
  ultimately have "l = p @ separator @ takeWhile (\<lambda>c. c \<noteq> newline) ?rest @ newline # r"
    by simp
  with assms show False
    by blast
qed

lemma compare_attributes_false:
  "compare_attributes attrs item False = None \<or> compare_attributes attrs item False = Some False"
  by (induction attrs) (auto split: option.splits)

lemma compare_key_false: "compare_key attrs e item ml False = False"
  using compare_attributes_false [of attrs item]
  by (auto simp: compare_key_def split: entry.splits option.splits)

lemma compare_keys_false: "compare_keys attrs es item ml False = False"
  by (cases es) (simp_all add: compare_key_false Let_def)

lemma search_series_all_none:
  "\<not> any_not_none attrs \<Longrightarrow> search_series attrs series serieslist ml = False"
  by (induction serieslist) (simp_all add: compare_keys_false)

lemma compare_attributes_same:
  assumes "getitem_attributes item = Some attrs" and "distinct (map fst attrs)"
  shows "set rest \<subseteq> set attrs \<Longrightarrow> compare_attributes rest item match = Some match"
proof (induction rest arbitrary: match)
  case Nil
  show ?case by simp
next
  case (Cons kv rest)
  obtain k v where kv: "kv = (k, v)"
    by (cases kv)
  with Cons.prems have "(k, v) \<in> set attrs"
    by simp
  with assms(2) have "map_of attrs k = Some v"
    by simp
  moreover from Cons.prems have "set rest \<subseteq> set attrs"
    by simp
  ultimately show ?case
    using assms(1) kv Cons.IH by simp
qed

lemma compare_key_unlabelled:
  assumes "getitem_attributes item = Some attrs" and "distinct (map fst attrs)"
  shows "compare_key attrs e item False match = match"
  using compare_attributes_same [OF assms, of attrs match]
  by (simp add: compare_key_def split: entry.splits)

lemma compare_keys_unlabelled:
  assumes "getitem_attributes item = Some attrs" and "distinct (map fst attrs)"
  shows "compare_keys attrs es item False match = match"
  by (induction es arbitrary: match) (simp_all add: compare_key_unlabelled [OF assms] Let_def)

lemma compare_key_label_differs:
  assumes "getitem_label item key \<noteq> Some v"
  shows "compare_key attrs (Label key v) item True match = False"
  using assms by (auto simp: compare_key_def split: option.splits)

lemma compare_keys_label_differs:
  assumes "getitem_label item key \<noteq> Some v"
  shows "Label key v \<in> set es \<Longrightarrow> compare_keys attrs es item True match = False"
proof (induction es arbitrary: match)
  case Nil
  then show ?case by simp
next
  case (Cons e es)
  show ?case
  proof (cases "compare_key attrs e item True match")
    case False
    then show ?thesis by (simp add: Let_def)
  next
    case True
    with compare_key_label_differs [OF assms] have "e \<noteq> Label key v"
      by auto
    with Cons.prems have "Label key v \<in> set es"
      by simp
    then show ?thesis
      using True Cons.IH by (simp add: Let_def)
  qed
qed

text \<open>The statements of the body compute what the functions above compute, and leave
  the arguments alone.\<close>

lemma attributes_loop_refines:
  "attributes_loop attrs item st = (st', raised) \<Longrightarrow>
     arguments st' = arguments st
     \<and> compare_attributes attrs item (var_match st)
         = (if raised then None else Some (var_match st'))"
proof (induction attrs arbitrary: st)
  case Nil
  then show ?case by auto
next
  case (Cons kv attrs)
  obtain k v where kv: "kv = (k, v)"
    by (cases kv)
  show ?case
  proof (cases "getitem_attributes item")
    case None
    with Cons.prems kv show ?thesis
      by (auto simp: arguments_def)
  next
    case (Some ia)
    show ?thesis
    proof (cases "map_of ia k")
      case None
      with Cons.prems kv Some show ?thesis
        by (auto simp: arguments_def)
    next
      case (Some iv)
      with Cons.prems kv \<open>getitem_attributes item = Some ia\<close>
      have "attributes_loop attrs item
              (st\<lparr>var_seriesvalue := v, var_itemvalue := iv,
                   var_match := (var_match st \<and> v = iv)\<rparr>)
            = (st', raised)"
        by (simp add: Let_def)
      from Cons.IH [OF this] show ?thesis
        using kv Some \<open>getitem_attributes item = Some ia\<close> by (simp add: arguments_def)
    qed
  qed
qed

lemma try_key_refines:
  assumes "getitem_attributes (arg_series st) = Some attrs"
  shows "arguments (try_key e item st) = arguments st
         \<and> var_match (try_key e item st)
             = compare_key attrs e item (arg_matchbidslabels st) (var_match st)"
proof (cases e)
  case (Attributes a)
  obtain st' raised where l: "attributes_loop attrs item st = (st', raised)"
    by (cases "attributes_loop attrs item st")
  from attributes_loop_refines [OF l] show ?thesis
    using Attributes assms l by (auto simp: try_key_def compare_key_def arguments_def)
next
  case (Label key v)
  then show ?thesis
    by (auto simp: try_key_def compare_key_def arguments_def Let_def split: option.splits)
qed

lemma keys_loop_refines:
  "getitem_attributes (arg_series st) = Some attrs \<Longrightarrow>
     arguments (keys_loop es item st) = arguments st
     \<and> var_match (keys_loop es item st)
         = compare_keys attrs es item (arg_matchbidslabels st) (var_match st)"
proof (induction es arbitrary: st)
  case Nil
  then show ?case by simp
next
  case (Cons e es)
  note t = try_key_refines [OF Cons.prems, of e item]
  show ?case
  proof (cases "var_match (try_key e item st)")
    case False
    with t show ?thesis
      by (simp add: Let_def)
  next
    case True
    from t Cons.prems have "getitem_attributes (arg_series (try_key e item st)) = Some attrs"
      by (simp add: arguments_def)
    from Cons.IH [OF this] t True show ?thesis
      by (simp add: Let_def arguments_def)
  qed
qed

lemma items_loop_refines:
  "getitem_attributes (arg_series st) = Some attrs \<Longrightarrow>
     arguments (fst (items_loop items st)) = arguments st
     \<and> snd (items_loop items st)
         = Inr (search_series attrs (arg_series st) items (arg_matchbidslabels st))"
proof (induction items arbitrary: st)
  case Nil
  then show ?case by simp
next
  case (Cons item items)
  let ?st1 = "st\<lparr>var_match := any_not_none attrs\<rparr>"
  have a1: "getitem_attributes (arg_series ?st1) = Some attrs"
    using Cons.prems by simp
  note k = keys_loop_refines [OF a1, of "arg_series st" item]
  let ?st2 = "keys_loop (arg_series st) item ?st1"
  have a2: "getitem_attributes (arg_series ?st2) = Some attrs"
    using k Cons.prems by (simp add: arguments_def)
  show ?case
  proof (cases "var_match ?st2")
    case True
    with k Cons.prems show ?thesis
      by (simp add: Let_def arguments_def)
  next
    case False
    from Cons.IH [OF a2] k False Cons.prems show ?thesis
      by (simp add: Let_def arguments_def)
  qed
qed

lemma items_loop_keyerror:
  "getitem_attributes (arg_series st) = None \<Longrightarrow>
     items_loop items st = (st, if items = [] then Inr False else Inl KeyError)"
  by (cases items) simp_all

lemma exist_series_body_refines:
  "arguments (fst (exist_series_body st)) = arguments st
   \<and> snd (exist_series_body st)
       = exist_series (arg_series st) (arg_serieslist st) (arg_matchbidslabels st)"
proof (cases "getitem_attributes (arg_series st)")
  case None
  then show ?thesis
    by (simp add: exist_series_body_def items_loop_keyerror exist_series_def split: list.splits)
next
  case (Some attrs)
  from items_loop_refines [OF Some, of "arg_serieslist st"] Some show ?thesis
    by (cases "arg_serieslist st") (simp_all add: exist_series_body_def exist_series_def)
qed

subsection \<open>A field the dataset lacks\<close>

text \<open>
  Claim C1 says that a field absent from the structured dictionary and present in the
  text dump is taken from the dump. The code does not do so for a file that parses:
  \<^verbatim>\<open>dicomdict.get(tagname)\<close> returns \<^verbatim>\<open>None\<close> for a name the dataset lacks, no
  exception is raised, the handler that calls \<^verbatim>\<open>parse_from_x_protocol\<close> is not
  entered, and the result is the text \<^verbatim>\<open>None\<close>, whatever the file holds, also when
  it holds the line \<^verbatim>\<open>name\t = \tvalue\n\<close>.
\<close>

theorem absent_field_skips_fallback:
  assumes "dcmread ext f = Returns d"
    and "dataset_get ext d tagname = Returns PNone"
    and "DICOMFILE_MEMO m = Some f \<longrightarrow> DICOMDICT_MEMO m = Some d"
    and "fopen ext f = Some content"
    and "readlines content = before @ (tagname @ [CHR 0x09, CHR '' '', CHR ''='', CHR '' '', CHR 0x09] @ v @ [CHR 0x0A]) # after"
  shows "snd (snd (get_dicomfield ext m tagname f)) = Inr (PStr ''None'')"
  using get_dicomfield_returns [OF structured_lookup_parsed [OF assms(1,2,3)]] by simp

text \<open>
  The scenario of the specification: \<^verbatim>\<open>siemens.dcm\<close> parses,
  \<^verbatim>\<open>SliceThickness\<close> is not in its dataset, the line
  \<^verbatim>\<open>SliceThickness\t = \t2.5\n\<close> is in the file, and the result is the text
  \<^verbatim>\<open>None\<close>, not \<^verbatim>\<open>2.5\<close>. On \<^verbatim>\<open>protocol.dcm\<close>, which has the same bytes and
  which \<^verbatim>\<open>pydicom.dcmread\<close> refuses, the handler is entered and the result is
  \<^verbatim>\<open>2.5\<close>.
\<close>

theorem absent_field_skips_fallback_witness:
  "dcmread world ''siemens.dcm'' = Returns 1
   \<and> dataset_get world 1 ''SliceThickness'' = Returns PNone
   \<and> DICOMFILE_MEMO (memo_init :: nat memo) \<noteq> Some ''siemens.dcm''
   \<and> fopen world ''siemens.dcm'' = Some siemens_content
   \<and> readlines siemens_content =
        [''### ASCCONV BEGIN ###'' @ [CHR 0x0A]]
        @ (''SliceThickness'' @ [CHR 0x09, CHR '' '', CHR ''='', CHR '' '', CHR 0x09] @ ''2.5'' @ [CHR 0x0A])
        # [''### ASCCONV END ###'' @ [CHR 0x0A]]
   \<and> snd (snd (get_dicomfield world memo_init ''SliceThickness'' ''siemens.dcm''))
        = Inr (PStr ''None'')
   \<and> fopen world ''protocol.dcm'' = Some siemens_content
   \<and> snd (snd (get_dicomfield world memo_init ''SliceThickness'' ''protocol.dcm''))
        = Inr (PStr ''2.5'')"
proof -
  have h1: "dcmread world ''siemens.dcm'' = Returns 1"
    by (simp add: world_def)
  have h2: "dataset_get world 1 ''SliceThickness'' = Returns PNone"
    by (simp add: world_def)
  have n: "DICOMFILE_MEMO (memo_init :: nat memo) \<noteq> Some ''siemens.dcm''"
    by (simp add: memo_init_def)
  then have h3: "DICOMFILE_MEMO (memo_init :: nat memo) = Some ''siemens.dcm''
                   \<longrightarrow> DICOMDICT_MEMO (memo_init :: nat memo) = Some 1"
    by simp
  have h4: "fopen world ''siemens.dcm'' = Some siemens_content"
    by (simp add: world_def)
  have h5: "readlines siemens_content =
        [''### ASCCONV BEGIN ###'' @ [CHR 0x0A]]
        @ (''SliceThickness'' @ [CHR 0x09, CHR '' '', CHR ''='', CHR '' '', CHR 0x09] @ ''2.5'' @ [CHR 0x0A])
        # [''### ASCCONV END ###'' @ [CHR 0x0A]]"
    by code_simp
  have h6: "fopen world ''protocol.dcm'' = Some siemens_content"
    by (simp add: world_def)
  have h7: "snd (snd (get_dicomfield world memo_init ''SliceThickness'' ''protocol.dcm''))
              = Inr (PStr ''2.5'')"
    by code_simp
  show ?thesis
    using h1 h2 n h4 h5 h6 h7 absent_field_skips_fallback [OF h1 h2 h3 h4 h5]
    by blast
qed

text \<open>
  Claim C2 says that a field in neither source gives absent and exactly one
  diagnostic. For a file that parses the code gives neither: \<^verbatim>\<open>get\<close> returns
  \<^verbatim>\<open>None\<close>, the handlers with the warnings are not entered, no warning is emitted,
  and the result is the text \<^verbatim>\<open>None\<close>.
\<close>

theorem absent_field_no_warning:
  assumes "dcmread ext f = Returns d"
    and "dataset_get ext d tagname = Returns PNone"
    and "DICOMFILE_MEMO m = Some f \<longrightarrow> DICOMDICT_MEMO m = Some d"
  shows "warnings_of (fst (snd (get_dicomfield ext m tagname f))) = []
         \<and> snd (snd (get_dicomfield ext m tagname f)) = Inr (PStr ''None'')"
  using get_dicomfield_returns [OF structured_lookup_parsed [OF assms]] by simp

text \<open>
  \<^verbatim>\<open>EchoTime\<close> is neither in the dataset of \<^verbatim>\<open>siemens.dcm\<close> nor in a line of the
  file: no warning. On \<^verbatim>\<open>protocol.dcm\<close>, which \<^verbatim>\<open>pydicom.dcmread\<close> refuses, the
  handler is entered and there is the one warning that names the pattern and the file,
  with the same result.
\<close>

theorem absent_field_no_warning_witness:
  "dcmread world ''siemens.dcm'' = Returns 1
   \<and> dataset_get world 1 ''EchoTime'' = Returns PNone
   \<and> DICOMFILE_MEMO (memo_init :: nat memo) \<noteq> Some ''siemens.dcm''
   \<and> warnings_of (fst (snd (get_dicomfield world memo_init ''EchoTime'' ''siemens.dcm''))) = []
   \<and> snd (snd (get_dicomfield world memo_init ''EchoTime'' ''siemens.dcm''))
        = Inr (PStr ''None'')
   \<and> warnings_of (fst (snd (get_dicomfield world memo_init ''EchoTime'' ''protocol.dcm'')))
        = [PatternNotFound (''^EchoTime'' @ [CHR 0x09, CHR '' '', CHR ''='', CHR '' '', CHR 0x09] @ ''(.*)'' @ [CHR 0x0A]) ''protocol.dcm'']
   \<and> snd (snd (get_dicomfield world memo_init ''EchoTime'' ''protocol.dcm''))
        = Inr (PStr ''None'')"
proof -
  have h1: "dcmread world ''siemens.dcm'' = Returns 1"
    by (simp add: world_def)
  have h2: "dataset_get world 1 ''EchoTime'' = Returns PNone"
    by (simp add: world_def)
  have n: "DICOMFILE_MEMO (memo_init :: nat memo) \<noteq> Some ''siemens.dcm''"
    by (simp add: memo_init_def)
  then have h3: "DICOMFILE_MEMO (memo_init :: nat memo) = Some ''siemens.dcm''
                   \<longrightarrow> DICOMDICT_MEMO (memo_init :: nat memo) = Some 1"
    by simp
  have h4: "warnings_of (fst (snd (get_dicomfield world memo_init ''EchoTime'' ''protocol.dcm'')))
        = [PatternNotFound (''^EchoTime'' @ [CHR 0x09, CHR '' '', CHR ''='', CHR '' '', CHR 0x09] @ ''(.*)'' @ [CHR 0x0A]) ''protocol.dcm'']"
    by code_simp
  have h5: "snd (snd (get_dicomfield world memo_init ''EchoTime'' ''protocol.dcm''))
        = Inr (PStr ''None'')"
    by code_simp
  show ?thesis
    using h1 h2 n h4 h5 absent_field_no_warning [OF h1 h2 h3]
    by blast
qed

subsection \<open>An I/O failure of the parse\<close>

text \<open>
  Claim C3 says that an I/O failure of the parse is reported and that the call returns
  absent without raising. The code reports it and then raises: when the file is not the
  memoised one and \<^verbatim>\<open>pydicom.dcmread\<close> raises IOError, the call warns that it cannot
  read the file and ends with UnboundLocalError, for every field name.
\<close>

theorem io_failure_raises_unbound_local:
  assumes "Some f \<noteq> DICOMFILE_MEMO m" and "dcmread ext f = RaisesIOError"
  shows "snd (get_dicomfield ext m tagname f)
           = ([DcmRead f, Warn (CannotRead f)], Inl UnboundLocalError)"
  using get_dicomfield_io [OF structured_lookup_io [OF assms]] by simp

text \<open>The first call of a session, on a file that cannot be opened.\<close>

theorem io_failure_raises_unbound_local_witness:
  "Some ''missing.dcm'' \<noteq> DICOMFILE_MEMO (memo_init :: nat memo)
   \<and> dcmread world ''missing.dcm'' = RaisesIOError
   \<and> snd (get_dicomfield world memo_init ''PatientName'' ''missing.dcm'')
        = ([DcmRead ''missing.dcm'', Warn (CannotRead ''missing.dcm'')], Inl UnboundLocalError)"
proof -
  have h1: "Some ''missing.dcm'' \<noteq> DICOMFILE_MEMO (memo_init :: nat memo)"
    by (simp add: memo_init_def)
  have h2: "dcmread world ''missing.dcm'' = RaisesIOError"
    by (simp add: world_def)
  show ?thesis
    using h1 h2 io_failure_raises_unbound_local [OF h1 h2, of "''PatientName''"] by blast
qed

text \<open>
  Claim C7. When the file is not the memoised one and \<^verbatim>\<open>pydicom.dcmread\<close> raises
  IOError, both globals are after the call what they were before it: the dictionary
  memoised before is kept, and the file that failed is not recorded.
\<close>

theorem io_failure_keeps_cache:
  assumes "Some f \<noteq> DICOMFILE_MEMO m" and "dcmread ext f = RaisesIOError"
  shows "fst (get_dicomfield ext m tagname f) = m
         \<and> DICOMFILE_MEMO (fst (get_dicomfield ext m tagname f)) \<noteq> Some f"
  using assms structured_lookup_io [OF assms, of tagname]
  by (auto simp: get_dicomfield_memo)

text \<open>With \<^verbatim>\<open>siemens.dcm\<close> memoised, a call on the file that cannot be opened.\<close>

theorem io_failure_keeps_cache_witness:
  "Some ''missing.dcm'' \<noteq> DICOMFILE_MEMO memo_siemens
   \<and> dcmread world ''missing.dcm'' = RaisesIOError
   \<and> fst (get_dicomfield world memo_siemens ''PatientName'' ''missing.dcm'') = memo_siemens
   \<and> DICOMFILE_MEMO (fst (get_dicomfield world memo_siemens ''PatientName'' ''missing.dcm''))
        \<noteq> Some ''missing.dcm''"
proof -
  have h1: "Some ''missing.dcm'' \<noteq> DICOMFILE_MEMO memo_siemens"
    by (simp add: memo_siemens_def)
  have h2: "dcmread world ''missing.dcm'' = RaisesIOError"
    by (simp add: world_def)
  show ?thesis
    using h1 h2 io_failure_keeps_cache [OF h1 h2, of "''PatientName''"] by blast
qed

subsection \<open>The memo\<close>

text \<open>
  Claim C5. Take two consecutive calls on the same file, whatever the field names.
  Over both, \<^verbatim>\<open>pydicom.dcmread\<close> returns a dictionary at most once (when it raises,
  each call tries again and no dictionary is parsed: claim C7). When the first call
  leaves the file as the memoised one, the second does not call
  \<^verbatim>\<open>pydicom.dcmread\<close> and leaves the globals as they are. A call on a file that is
  not the memoised one and that parses calls \<^verbatim>\<open>pydicom.dcmread\<close> once and replaces
  both globals by the new dictionary and the file, so that nothing of the former
  entry is left; the lookup of the next call on the file is the lookup in that
  dictionary.
\<close>

theorem cache_single_entry:
  assumes "get_dicomfield ext m t1 f = (m1, evs1, r1)"
    and "get_dicomfield ext m1 t2 f = (m2, evs2, r2)"
  shows "length (parses_of ext (evs1 @ evs2)) \<le> 1
         \<and> (DICOMFILE_MEMO m1 = Some f \<longrightarrow> dcmreads_of evs2 = [] \<and> m2 = m1)
         \<and> (dcmread ext f = Returns d \<longrightarrow>
              DICOMFILE_MEMO m1 = Some f \<and> length (dcmreads_of (evs1 @ evs2)) \<le> 1)
         \<and> (Some f \<noteq> DICOMFILE_MEMO m \<and> dcmread ext f = Returns d \<longrightarrow>
              m1 = \<lparr>DICOMDICT_MEMO = Some d, DICOMFILE_MEMO = Some f\<rparr>
              \<and> dcmreads_of evs1 = [f]
              \<and> structured_lookup ext m1 t2 f = (m1, [], dataset_get ext d t2))"
proof -
  have m1: "m1 = fst (structured_lookup ext m t1 f)"
    and e1: "dcmreads_of evs1 = dcmreads_of (fst (snd (structured_lookup ext m t1 f)))"
    using assms(1) get_dicomfield_memo [of ext m t1 f] get_dicomfield_dcmreads [of ext m t1 f]
    by simp_all
  have m2: "m2 = fst (structured_lookup ext m1 t2 f)"
    and e2: "dcmreads_of evs2 = dcmreads_of (fst (snd (structured_lookup ext m1 t2 f)))"
    using assms(2) get_dicomfield_memo [of ext m1 t2 f] get_dicomfield_dcmreads [of ext m1 t2 f]
    by simp_all
  have cached: "DICOMFILE_MEMO m1 = Some f" if "dcmread ext f = Returns x" for x
    using that m1 by (simp add: structured_lookup_memo)
  have reuse: "dcmreads_of evs2 = [] \<and> m2 = m1" if "DICOMFILE_MEMO m1 = Some f"
    using that m2 e2 by (simp add: structured_lookup_dcmreads structured_lookup_memo)
  have calls: "length (dcmreads_of (evs1 @ evs2)) \<le> 1" if "dcmread ext f = Returns x" for x
    using reuse [OF cached [OF that]] e1
    by (simp add: dcmreads_of_append structured_lookup_dcmreads)
  have once: "length (parses_of ext (evs1 @ evs2)) \<le> 1"
  proof (cases "dcmread ext f")
    case (Returns x)
    have "length (parses_of ext (evs1 @ evs2)) \<le> length (dcmreads_of (evs1 @ evs2))"
      by (simp add: parses_of_def)
    with calls [OF Returns] show ?thesis
      by simp
  next
    case RaisesIOError
    then show ?thesis
      using e1 e2 by (simp add: parses_of_def dcmreads_of_append structured_lookup_dcmreads)
  next
    case RaisesException
    then show ?thesis
      using e1 e2 by (simp add: parses_of_def dcmreads_of_append structured_lookup_dcmreads)
  qed
  have fresh: "Some f \<noteq> DICOMFILE_MEMO m \<and> dcmread ext f = Returns d \<Longrightarrow>
      m1 = \<lparr>DICOMDICT_MEMO = Some d, DICOMFILE_MEMO = Some f\<rparr> \<and> dcmreads_of evs1 = [f]
      \<and> structured_lookup ext m1 t2 f = (m1, [], dataset_get ext d t2)"
    using m1 e1 by (simp add: structured_lookup_def)
  show ?thesis
    using once reuse cached calls fresh by blast
qed

text \<open>With \<^verbatim>\<open>siemens.dcm\<close> memoised, two calls on \<^verbatim>\<open>plain.dcm\<close>: the first
  parses and replaces the entry, the second reads the memoised dictionary.\<close>

theorem cache_single_entry_witness:
  "get_dicomfield world memo_siemens ''Rows'' ''plain.dcm''
        = (\<lparr>DICOMDICT_MEMO = Some 2, DICOMFILE_MEMO = Some ''plain.dcm''\<rparr>,
           [DcmRead ''plain.dcm''], Inr (PInt 256))
   \<and> get_dicomfield world \<lparr>DICOMDICT_MEMO = Some 2, DICOMFILE_MEMO = Some ''plain.dcm''\<rparr>
        ''PatientName'' ''plain.dcm''
        = (\<lparr>DICOMDICT_MEMO = Some 2, DICOMFILE_MEMO = Some ''plain.dcm''\<rparr>, [],
           Inr (PStr ''Doe''))
   \<and> parses_of world ([DcmRead ''plain.dcm''] @ []) = [''plain.dcm'']
   \<and> Some ''plain.dcm'' \<noteq> DICOMFILE_MEMO memo_siemens
   \<and> dcmread world ''plain.dcm'' = Returns 2
   \<and> structured_lookup world \<lparr>DICOMDICT_MEMO = Some 2, DICOMFILE_MEMO = Some ''plain.dcm''\<rparr>
        ''PatientName'' ''plain.dcm''
        = (\<lparr>DICOMDICT_MEMO = Some 2, DICOMFILE_MEMO = Some ''plain.dcm''\<rparr>, [],
           dataset_get world 2 ''PatientName'')"
proof -
  have h1: "get_dicomfield world memo_siemens ''Rows'' ''plain.dcm''
        = (\<lparr>DICOMDICT_MEMO = Some 2, DICOMFILE_MEMO = Some ''plain.dcm''\<rparr>,
           [DcmRead ''plain.dcm''], Inr (PInt 256))"
    by (simp add: get_dicomfield_def structured_lookup_def world_def memo_siemens_def)
  have h2: "get_dicomfield world \<lparr>DICOMDICT_MEMO = Some 2, DICOMFILE_MEMO = Some ''plain.dcm''\<rparr>
        ''PatientName'' ''plain.dcm''
        = (\<lparr>DICOMDICT_MEMO = Some 2, DICOMFILE_MEMO = Some ''plain.dcm''\<rparr>, [],
           Inr (PStr ''Doe''))"
    by (simp add: get_dicomfield_def structured_lookup_def world_def)
  have h3: "Some ''plain.dcm'' \<noteq> DICOMFILE_MEMO memo_siemens"
    by (simp add: memo_siemens_def)
  have h4: "dcmread world ''plain.dcm'' = Returns 2"
    by (simp add: world_def)
  have h5: "parses_of world ([DcmRead ''plain.dcm''] @ []) = [''plain.dcm'']"
    by (simp add: parses_of_def world_def)
  show ?thesis
    using h1 h2 h3 h4 h5 cache_single_entry [OF h1 h2, of 2] by simp
qed

subsection \<open>The scan of the text dump\<close>

text \<open>
  Claim C8, as the code has it. The claim says that the group of the first matching
  line is returned as text; the code decodes it as UTF-8, and on bytes that are not
  well-formed UTF-8 the decoding raises (see the counterexample below). For a file
  that opens:

  \<^item> For a field name without metacharacters, the lines that match are those made of
    the name, a tab, a space, an equals sign, a space, a tab, a value and the newline.
    When such a line comes after lines that are not of this form, the result is its
    value, as text if it is well-formed UTF-8; the decoding raises otherwise. There is
    no warning about the pattern.
  \<^item> When no line is of this form, the result is \<^verbatim>\<open>None\<close>, and the last warning
    names the pattern \<^verbatim>\<open>^name\t = \t(.*)\n\<close> and the file.
  \<^item> For any field name whose pattern compiles, the result is decided by the first
    line, from the top, that the compiled pattern matches, in the same way.

  In each case a warning comes first when the file lacks the marker
  \<^verbatim>\<open>ASCCONV BEGIN\<close>.
\<close>

theorem parse_first_match:
  assumes "fopen ext f = Some content"
  shows
    "(literal pattern
        \<and> readlines content = before @ (pattern @ [CHR 0x09, CHR '' '', CHR ''='', CHR '' '', CHR 0x09] @ g @ [CHR 0x0A]) # after
        \<and> CHR 0x0A \<notin> set g
        \<and> list_all (\<lambda>l. \<forall>g' r. l \<noteq> pattern @ [CHR 0x09, CHR '' '', CHR ''='', CHR '' '', CHR 0x09] @ g' @ CHR 0x0A # r) before
      \<longrightarrow> parse_from_x_protocol ext pattern f
            = (if contains ''ASCCONV BEGIN'' content then [] else [Warn NotSiemens],
               if utf8_valid g then Returns (Some g) else RaisesException))
     \<and> (literal pattern
        \<and> list_all (\<lambda>l. \<forall>g' r. l \<noteq> pattern @ [CHR 0x09, CHR '' '', CHR ''='', CHR '' '', CHR 0x09] @ g' @ CHR 0x0A # r) (readlines content)
      \<longrightarrow> parse_from_x_protocol ext pattern f
            = ((if contains ''ASCCONV BEGIN'' content then [] else [Warn NotSiemens])
                 @ [Warn (PatternNotFound (''^'' @ pattern @ [CHR 0x09, CHR '' '', CHR ''='', CHR '' '', CHR 0x09] @ ''(.*)'' @ [CHR 0x0A]) f)],
               Returns None))
     \<and> (re_compile ext pattern = Some regex
      \<longrightarrow> parse_from_x_protocol ext pattern f
            = (case List.find (\<lambda>l. regex l \<noteq> NoMatch) (readlines content) of
                 None \<Rightarrow>
                   ((if contains ''ASCCONV BEGIN'' content then [] else [Warn NotSiemens])
                      @ [Warn (PatternNotFound (''^'' @ pattern @ [CHR 0x09, CHR '' '', CHR ''='', CHR '' '', CHR 0x09] @ ''(.*)'' @ [CHR 0x0A]) f)],
                    Returns None)
               | Some l \<Rightarrow>
                   (if contains ''ASCCONV BEGIN'' content then [] else [Warn NotSiemens],
                    case regex l of
                      NoMatch \<Rightarrow> Returns None
                    | Match None \<Rightarrow> RaisesException
                    | Match (Some g) \<Rightarrow>
                        if utf8_valid g then Returns (Some g) else RaisesException)))"
proof (intro conjI impI)
  assume a: "literal pattern
             \<and> readlines content = before @ (pattern @ [CHR 0x09, CHR '' '', CHR ''='', CHR '' '', CHR 0x09] @ g @ [CHR 0x0A]) # after
             \<and> CHR 0x0A \<notin> set g
             \<and> list_all (\<lambda>l. \<forall>g' r. l \<noteq> pattern @ [CHR 0x09, CHR '' '', CHR ''='', CHR '' '', CHR 0x09] @ g' @ CHR 0x0A # r) before"
  then have c: "re_compile ext pattern = Some (match_literal pattern)"
    by (simp add: re_compile_def)
  have nm: "match_literal pattern l = NoMatch"
    if "\<forall>g' r. l \<noteq> pattern @ [CHR 0x09, CHR '' '', CHR ''='', CHR '' '', CHR 0x09] @ g' @ CHR 0x0A # r" for l
    using that by (intro match_literal_nomatch) (simp add: separator_def tab_def newline_def)
  from a have skip: "list_all (\<lambda>l. match_literal pattern l = NoMatch) before"
    by (simp add: list_all_iff nm)
  from a have line: "match_literal pattern (pattern @ [CHR 0x09, CHR '' '', CHR ''='', CHR '' '', CHR 0x09] @ g @ [CHR 0x0A]) = Match (Some g)"
    using match_literal_line [of g pattern] by (simp add: separator_def tab_def newline_def)
  from a have "scan_lines (match_literal pattern) (readlines content)
          = scan_lines (match_literal pattern) ((pattern @ [CHR 0x09, CHR '' '', CHR ''='', CHR '' '', CHR 0x09] @ g @ [CHR 0x0A]) # after)"
    using skip by (simp add: scan_lines_skip)
  also have "\<dots> = (if utf8_valid g then Returns (Some g) else RaisesException)"
    using line by (simp add: decode_group_def decode_utf8_def)
  finally show "parse_from_x_protocol ext pattern f
            = (if contains ''ASCCONV BEGIN'' content then [] else [Warn NotSiemens],
               if utf8_valid g then Returns (Some g) else RaisesException)"
    using assms c
    by (simp add: parse_from_x_protocol_def is_dicomfile_siemens_def Let_def)
next
  assume a: "literal pattern
        \<and> list_all (\<lambda>l. \<forall>g' r. l \<noteq> pattern @ [CHR 0x09, CHR '' '', CHR ''='', CHR '' '', CHR 0x09] @ g' @ CHR 0x0A # r) (readlines content)"
  then have c: "re_compile ext pattern = Some (match_literal pattern)"
    by (simp add: re_compile_def)
  have nm: "match_literal pattern l = NoMatch"
    if "\<forall>g' r. l \<noteq> pattern @ [CHR 0x09, CHR '' '', CHR ''='', CHR '' '', CHR 0x09] @ g' @ CHR 0x0A # r" for l
    using that by (intro match_literal_nomatch) (simp add: separator_def tab_def newline_def)
  from a have "list_all (\<lambda>l. match_literal pattern l = NoMatch) (readlines content)"
    by (simp add: list_all_iff nm)
  then have "scan_lines (match_literal pattern) (readlines content) = Returns None"
    by (rule scan_lines_none)
  with assms c show "parse_from_x_protocol ext pattern f
            = ((if contains ''ASCCONV BEGIN'' content then [] else [Warn NotSiemens])
                 @ [Warn (PatternNotFound (''^'' @ pattern @ [CHR 0x09, CHR '' '', CHR ''='', CHR '' '', CHR 0x09] @ ''(.*)'' @ [CHR 0x0A]) f)],
               Returns None)"
    by (simp add: parse_not_found regexp_of_def separator_def tab_def newline_def)
next
  assume c: "re_compile ext pattern = Some regex"
  show "parse_from_x_protocol ext pattern f
            = (case List.find (\<lambda>l. regex l \<noteq> NoMatch) (readlines content) of
                 None \<Rightarrow>
                   ((if contains ''ASCCONV BEGIN'' content then [] else [Warn NotSiemens])
                      @ [Warn (PatternNotFound (''^'' @ pattern @ [CHR 0x09, CHR '' '', CHR ''='', CHR '' '', CHR 0x09] @ ''(.*)'' @ [CHR 0x0A]) f)],
                    Returns None)
               | Some l \<Rightarrow>
                   (if contains ''ASCCONV BEGIN'' content then [] else [Warn NotSiemens],
                    case regex l of
                      NoMatch \<Rightarrow> Returns None
                    | Match None \<Rightarrow> RaisesException
                    | Match (Some g) \<Rightarrow>
                        if utf8_valid g then Returns (Some g) else RaisesException))"
  proof (cases "List.find (\<lambda>l. regex l \<noteq> NoMatch) (readlines content)")
    case None
    then have "scan_lines regex (readlines content) = Returns None"
      by (simp add: scan_lines_find)
    then show ?thesis
      using assms c None
      by (simp add: parse_not_found regexp_of_def separator_def tab_def newline_def)
  next
    case (Some l)
    then have "regex l \<noteq> NoMatch"
      by (auto simp: find_Some_iff)
    then obtain g where g: "regex l = Match g"
      by (cases "regex l") auto
    have s: "scan_lines regex (readlines content) = decode_group g"
      using Some g by (simp add: scan_lines_find)
    show ?thesis
      using assms c Some g s decode_group_not_none [of g]
      by (cases g)
         (auto simp: parse_from_x_protocol_def is_dicomfile_siemens_def Let_def
            decode_group_def decode_utf8_def)
  qed
qed

text \<open>The first line of \<^verbatim>\<open>protocol.dcm\<close> of the form for \<^verbatim>\<open>SliceThickness\<close> is
  its second line, and the result is the text \<^verbatim>\<open>2.5\<close>; no line is of the form for
  \<^verbatim>\<open>EchoTime\<close>.\<close>

theorem parse_first_match_witness:
  "fopen world ''protocol.dcm'' = Some siemens_content
   \<and> literal ''SliceThickness''
   \<and> readlines siemens_content =
        [''### ASCCONV BEGIN ###'' @ [CHR 0x0A]]
        @ (''SliceThickness'' @ [CHR 0x09, CHR '' '', CHR ''='', CHR '' '', CHR 0x09] @ ''2.5'' @ [CHR 0x0A])
        # [''### ASCCONV END ###'' @ [CHR 0x0A]]
   \<and> CHR 0x0A \<notin> set ''2.5''
   \<and> list_all (\<lambda>l. \<forall>g' r. l \<noteq> ''SliceThickness'' @ [CHR 0x09, CHR '' '', CHR ''='', CHR '' '', CHR 0x09] @ g' @ CHR 0x0A # r)
        [''### ASCCONV BEGIN ###'' @ [CHR 0x0A]]
   \<and> utf8_valid ''2.5''
   \<and> contains ''ASCCONV BEGIN'' siemens_content
   \<and> parse_from_x_protocol world ''SliceThickness'' ''protocol.dcm'' = ([], Returns (Some ''2.5''))
   \<and> literal ''EchoTime''
   \<and> list_all (\<lambda>l. \<forall>g' r. l \<noteq> ''EchoTime'' @ [CHR 0x09, CHR '' '', CHR ''='', CHR '' '', CHR 0x09] @ g' @ CHR 0x0A # r)
        (readlines siemens_content)
   \<and> parse_from_x_protocol world ''EchoTime'' ''protocol.dcm''
        = ([Warn (PatternNotFound (''^EchoTime'' @ [CHR 0x09, CHR '' '', CHR ''='', CHR '' '', CHR 0x09] @ ''(.*)'' @ [CHR 0x0A]) ''protocol.dcm'')],
           Returns None)"
proof -
  have h1: "fopen world ''protocol.dcm'' = Some siemens_content"
    by (simp add: world_def)
  have h2: "literal ''SliceThickness''"
    by code_simp
  have h3: "readlines siemens_content =
        [''### ASCCONV BEGIN ###'' @ [CHR 0x0A]]
        @ (''SliceThickness'' @ [CHR 0x09, CHR '' '', CHR ''='', CHR '' '', CHR 0x09] @ ''2.5'' @ [CHR 0x0A])
        # [''### ASCCONV END ###'' @ [CHR 0x0A]]"
    by code_simp
  have h4: "CHR 0x0A \<notin> set ''2.5''"
    by simp
  have h5: "list_all (\<lambda>l. \<forall>g' r. l \<noteq> ''SliceThickness'' @ [CHR 0x09, CHR '' '', CHR ''='', CHR '' '', CHR 0x09] @ g' @ CHR 0x0A # r)
        [''### ASCCONV BEGIN ###'' @ [CHR 0x0A]]"
    by simp
  have h6: "utf8_valid ''2.5''"
    by code_simp
  have h7: "contains ''ASCCONV BEGIN'' siemens_content"
    by code_simp
  have h8: "literal ''EchoTime''"
    by code_simp
  have h9: "list_all (\<lambda>l. \<forall>g' r. l \<noteq> ''EchoTime'' @ [CHR 0x09, CHR '' '', CHR ''='', CHR '' '', CHR 0x09] @ g' @ CHR 0x0A # r)
        (readlines siemens_content)"
    by (simp add: h3)
  note t = parse_first_match [OF h1, of "''SliceThickness''"
      "[''### ASCCONV BEGIN ###'' @ [CHR 0x0A]]" "''2.5''"
      "[''### ASCCONV END ###'' @ [CHR 0x0A]]"]
  note u = parse_first_match [OF h1, of "''EchoTime''"]
  have r1: "parse_from_x_protocol world ''SliceThickness'' ''protocol.dcm''
              = ([], Returns (Some ''2.5''))"
    using t h2 h3 h4 h5 h6 h7 by simp
  have r2: "parse_from_x_protocol world ''EchoTime'' ''protocol.dcm''
        = ([Warn (PatternNotFound (''^EchoTime'' @ [CHR 0x09, CHR '' '', CHR ''='', CHR '' '', CHR 0x09] @ ''(.*)'' @ [CHR 0x0A]) ''protocol.dcm'')],
           Returns None)"
    using u h7 h8 h9 by simp
  show ?thesis
    using h1 h2 h3 h4 h5 h6 h7 h8 h9 r1 r2 by blast
qed

text \<open>
  The claim as stated fails on a value that is not UTF-8. The only line of
  \<^verbatim>\<open>garbled.dcm\<close> is of the form for \<^verbatim>\<open>SliceThickness\<close>, with the byte
  \<^verbatim>\<open>0xFF\<close> as its value; \<^verbatim>\<open>parse_from_x_protocol\<close> does not return the value as
  text: it raises (UnicodeDecodeError).
\<close>

theorem parse_ill_formed_counterexample:
  "fopen world ''garbled.dcm'' = Some garbled_content
   \<and> readlines garbled_content = [''SliceThickness'' @ [CHR 0x09, CHR '' '', CHR ''='', CHR '' '', CHR 0x09] @ [CHR 0xFF] @ [CHR 0x0A]]
   \<and> snd (parse_from_x_protocol world ''SliceThickness'' ''garbled.dcm'') = RaisesException"
  by code_simp

subsection \<open>The cast of the result\<close>

text \<open>
  Claim C10. A result that \<^verbatim>\<open>get_dicomfield\<close> returns is an \<^verbatim>\<open>int\<close> or a
  \<^verbatim>\<open>str\<close>, never \<^verbatim>\<open>None\<close>. The value that the lookup returns passes through the
  cast: an \<^verbatim>\<open>int\<close> stays what it is (a \<^verbatim>\<open>bool\<close> becomes 0 or 1), a \<^verbatim>\<open>str\<close>
  stays what it is, any other object becomes its text, and \<^verbatim>\<open>None\<close> becomes the
  text \<^verbatim>\<open>None\<close>. When the lookup raises (other than IOError), the result is the
  text that the scan of the text dump returns, and the text \<^verbatim>\<open>None\<close> when the scan
  finds nothing or raises.
\<close>

theorem result_int_or_str:
  "(snd (snd (get_dicomfield ext m tagname f)) = Inr v \<longrightarrow>
      v \<noteq> PNone \<and> ((\<exists>i. v = PInt i) \<or> (\<exists>s. v = PStr s)))
   \<and> (snd (snd (structured_lookup ext m tagname f)) = Returns PNone \<longrightarrow>
        snd (snd (get_dicomfield ext m tagname f)) = Inr (PStr ''None''))
   \<and> (snd (snd (structured_lookup ext m tagname f)) = RaisesException
        \<and> snd (parse_from_x_protocol ext tagname f) = Returns None \<longrightarrow>
        snd (snd (get_dicomfield ext m tagname f)) = Inr (PStr ''None''))
   \<and> (snd (snd (structured_lookup ext m tagname f)) = Returns (PInt i) \<longrightarrow>
        snd (snd (get_dicomfield ext m tagname f)) = Inr (PInt i))
   \<and> (snd (snd (structured_lookup ext m tagname f)) = Returns (PBool b) \<longrightarrow>
        snd (snd (get_dicomfield ext m tagname f)) = Inr (PInt (if b then 1 else 0)))
   \<and> (snd (snd (structured_lookup ext m tagname f)) = Returns (PStr s) \<longrightarrow>
        snd (snd (get_dicomfield ext m tagname f)) = Inr (PStr s))
   \<and> (snd (snd (structured_lookup ext m tagname f)) = Returns (POther s) \<longrightarrow>
        snd (snd (get_dicomfield ext m tagname f)) = Inr (PStr s))
   \<and> (snd (snd (structured_lookup ext m tagname f)) = RaisesException
        \<and> snd (parse_from_x_protocol ext tagname f) = Returns (Some s) \<longrightarrow>
        snd (snd (get_dicomfield ext m tagname f)) = Inr (PStr s))
   \<and> (snd (snd (structured_lookup ext m tagname f)) = RaisesException
        \<and> (snd (parse_from_x_protocol ext tagname f) = RaisesException
            \<or> snd (parse_from_x_protocol ext tagname f) = RaisesIOError) \<longrightarrow>
        snd (snd (get_dicomfield ext m tagname f)) = Inr (PStr ''None''))"
proof -
  have first: "v \<noteq> PNone \<and> ((\<exists>i. v = PInt i) \<or> (\<exists>s. v = PStr s))"
    if r: "snd (snd (get_dicomfield ext m tagname f)) = Inr v"
  proof -
    have "\<exists>u. v = cast u"
      using r
      by (auto simp: get_dicomfield_def simp del: cast.simps
          split: prod.splits outcome.splits option.splits)
    then obtain u where u: "v = cast u" ..
    show ?thesis
      using u cast_int_or_str [of u] by (cases u) simp_all
  qed
  have returned: "snd (snd (get_dicomfield ext m tagname f)) = Inr (cast u)"
    if "snd (snd (structured_lookup ext m tagname f)) = Returns u" for u
    using get_dicomfield_returns [OF that] by simp
  have raised: "snd (snd (get_dicomfield ext m tagname f))
        = Inr (case snd (parse_from_x_protocol ext tagname f) of
                 Returns (Some t) \<Rightarrow> PStr t
               | Returns None \<Rightarrow> PStr ''None''
               | RaisesIOError \<Rightarrow> PStr ''None''
               | RaisesException \<Rightarrow> PStr ''None'')"
    if l: "snd (snd (structured_lookup ext m tagname f)) = RaisesException"
  proof -
    obtain m' evs where "structured_lookup ext m tagname f = (m', evs, RaisesException)"
      using l by (cases "structured_lookup ext m tagname f") auto
    from get_dicomfield_fallback [OF this] show ?thesis
      by (cases "parse_from_x_protocol ext tagname f")
         (auto split: outcome.splits option.splits)
  qed
  show ?thesis
    using first returned raised by (auto simp del: cast.simps simp: cast.simps)
qed

text \<open>\<^verbatim>\<open>Rows\<close> is a number, \<^verbatim>\<open>PatientName\<close> a text and \<^verbatim>\<open>PixelSpacing\<close> a
  MultiValue of the dataset, \<^verbatim>\<open>EchoTime\<close> is not in it; \<^verbatim>\<open>protocol.dcm\<close> and
  \<^verbatim>\<open>garbled.dcm\<close> do not parse, and the scan finds \<^verbatim>\<open>SliceThickness\<close> in the
  first, nothing for \<^verbatim>\<open>EchoTime\<close>, and raises on the second.\<close>

theorem result_int_or_str_witness:
  "snd (snd (get_dicomfield world memo_init ''Rows'' ''siemens.dcm'')) = Inr (PInt 256)
   \<and> PInt 256 \<noteq> PNone
   \<and> snd (snd (structured_lookup world memo_init ''Rows'' ''siemens.dcm'')) = Returns (PInt 256)
   \<and> snd (snd (structured_lookup world memo_init ''PatientName'' ''siemens.dcm''))
        = Returns (PStr ''Doe'')
   \<and> snd (snd (get_dicomfield world memo_init ''PatientName'' ''siemens.dcm''))
        = Inr (PStr ''Doe'')
   \<and> snd (snd (structured_lookup world memo_init ''PixelSpacing'' ''siemens.dcm''))
        = Returns (POther ''[0.5, 0.5]'')
   \<and> snd (snd (get_dicomfield world memo_init ''PixelSpacing'' ''siemens.dcm''))
        = Inr (PStr ''[0.5, 0.5]'')
   \<and> snd (snd (structured_lookup world memo_init ''EchoTime'' ''siemens.dcm'')) = Returns PNone
   \<and> snd (snd (get_dicomfield world memo_init ''EchoTime'' ''siemens.dcm''))
        = Inr (PStr ''None'')
   \<and> snd (snd (structured_lookup world memo_init ''EchoTime'' ''protocol.dcm'')) = RaisesException
   \<and> snd (parse_from_x_protocol world ''EchoTime'' ''protocol.dcm'') = Returns None
   \<and> snd (snd (get_dicomfield world memo_init ''EchoTime'' ''protocol.dcm''))
        = Inr (PStr ''None'')
   \<and> snd (parse_from_x_protocol world ''SliceThickness'' ''protocol.dcm'')
        = Returns (Some ''2.5'')
   \<and> snd (snd (get_dicomfield world memo_init ''SliceThickness'' ''protocol.dcm''))
        = Inr (PStr ''2.5'')
   \<and> snd (snd (structured_lookup world memo_init ''SliceThickness'' ''garbled.dcm''))
        = RaisesException
   \<and> snd (parse_from_x_protocol world ''SliceThickness'' ''garbled.dcm'') = RaisesException
   \<and> snd (snd (get_dicomfield world memo_init ''SliceThickness'' ''garbled.dcm''))
        = Inr (PStr ''None'')"
proof -
  have l1: "snd (snd (structured_lookup world memo_init ''Rows'' ''siemens.dcm''))
              = Returns (PInt 256)"
    by code_simp
  have l2: "snd (snd (structured_lookup world memo_init ''PatientName'' ''siemens.dcm''))
              = Returns (PStr ''Doe'')"
    by code_simp
  have l3: "snd (snd (structured_lookup world memo_init ''PixelSpacing'' ''siemens.dcm''))
              = Returns (POther ''[0.5, 0.5]'')"
    by code_simp
  have l4: "snd (snd (structured_lookup world memo_init ''EchoTime'' ''siemens.dcm''))
              = Returns PNone"
    by code_simp
  have l5: "snd (snd (structured_lookup world memo_init ''EchoTime'' ''protocol.dcm''))
              = RaisesException"
    by code_simp
  have p5: "snd (parse_from_x_protocol world ''EchoTime'' ''protocol.dcm'') = Returns None"
    by code_simp
  have l6: "snd (snd (structured_lookup world memo_init ''SliceThickness'' ''protocol.dcm''))
              = RaisesException"
    by code_simp
  have p6: "snd (parse_from_x_protocol world ''SliceThickness'' ''protocol.dcm'')
              = Returns (Some ''2.5'')"
    by code_simp
  have l7: "snd (snd (structured_lookup world memo_init ''SliceThickness'' ''garbled.dcm''))
              = RaisesException"
    by code_simp
  have p7: "snd (parse_from_x_protocol world ''SliceThickness'' ''garbled.dcm'') = RaisesException"
    by code_simp
  show ?thesis
    using l1 l2 l3 l4 l5 p5 l6 p6 l7 p7
      result_int_or_str [of world memo_init "''Rows''" "''siemens.dcm''" "PInt 256" 256]
      result_int_or_str [of world memo_init "''PatientName''" "''siemens.dcm''" _ _ _ "''Doe''"]
      result_int_or_str [of world memo_init "''PixelSpacing''" "''siemens.dcm''" _ _ _
        "''[0.5, 0.5]''"]
      result_int_or_str [of world memo_init "''EchoTime''" "''siemens.dcm''"]
      result_int_or_str [of world memo_init "''EchoTime''" "''protocol.dcm''"]
      result_int_or_str [of world memo_init "''SliceThickness''" "''protocol.dcm''" _ _ _ "''2.5''"]
      result_int_or_str [of world memo_init "''SliceThickness''" "''garbled.dcm''"]
    by simp
qed

subsection \<open>The series matcher\<close>

text \<open>
  Claim C4. When every attribute of the series is \<^verbatim>\<open>None\<close> (the "empty" of the
  comment in the code; this covers a series with no attribute at all),
  \<^verbatim>\<open>exist_series\<close> returns \<^verbatim>\<open>False\<close> for every list and both settings of
  \<^verbatim>\<open>matchbidslabels\<close>.
\<close>

theorem all_absent_never_exists:
  assumes "getitem_attributes series = Some attrs"
    and "list_all (\<lambda>kv. snd kv = SNone) attrs"
  shows "exist_series series serieslist matchbidslabels = Inr False"
proof -
  from assms(2) have "\<not> any_not_none attrs"
    by (simp add: any_not_none_def list_all_iff list_ex_iff)
  then have "search_series attrs series serieslist matchbidslabels = False"
    by (rule search_series_all_none)
  with assms(1) show ?thesis
    by (cases serieslist) (simp_all add: exist_series_def del: search_series.simps)
qed

text \<open>A list that holds the very same record with every attribute absent.\<close>

theorem all_absent_never_exists_witness:
  "getitem_attributes series_absent_anat = Some [(''a'', SNone), (''b'', SNone)]
   \<and> list_all (\<lambda>kv. snd kv = SNone) [(''a'', SNone), (''b'', SNone)]
   \<and> exist_series series_absent_anat [series_func, series_absent_anat] True = Inr False
   \<and> exist_series series_absent_anat [series_func, series_absent_anat] False = Inr False"
proof -
  have a: "getitem_attributes series_absent_anat = Some [(''a'', SNone), (''b'', SNone)]"
    by (simp add: series_absent_anat_def)
  have n: "list_all (\<lambda>kv. snd kv = SNone) [(''a'', SNone), (''b'', SNone)]"
    by simp
  show ?thesis
    using a n all_absent_never_exists [OF a n, of "[series_func, series_absent_anat]" True]
      all_absent_never_exists [OF a n, of "[series_func, series_absent_anat]" False]
    by simp
qed

text \<open>
  Claim C6, as the code has it. The claim speaks of all records with identical
  attributes; when every attribute is absent the answer is \<^verbatim>\<open>False\<close> whatever
  \<^verbatim>\<open>matchbidslabels\<close> is (claim C4, and the counterexample below). For a series and
  an item of the list with the same attributes (keys distinct), of which at least one
  is not \<^verbatim>\<open>None\<close>, and with a label of the series under whose key the item has
  another value: against the list of this one item \<^verbatim>\<open>exist_series\<close> returns
  \<^verbatim>\<open>False\<close> when \<^verbatim>\<open>matchbidslabels\<close> is true and \<^verbatim>\<open>True\<close> when it is false.
\<close>

theorem labels_compared_only_when_asked:
  assumes "getitem_attributes series = Some attrs"
    and "getitem_attributes item = Some attrs"
    and "distinct (map fst attrs)"
    and "any_not_none attrs"
    and "Label key v \<in> set series"
    and "getitem_label item key = Some v'"
    and "v' \<noteq> v"
  shows "exist_series series [item] True = Inr False
         \<and> exist_series series [item] False = Inr True"
proof -
  have "getitem_label item key \<noteq> Some v"
    using assms(6,7) by simp
  then have "compare_keys attrs series item True (any_not_none attrs) = False"
    using assms(5) by (rule compare_keys_label_differs)
  moreover have "compare_keys attrs series item False (any_not_none attrs) = True"
    using assms(4) by (simp add: compare_keys_unlabelled [OF assms(2,3)])
  ultimately show ?thesis
    using assms(1) by (simp add: exist_series_def)
qed

text \<open>The scenario of the specification: attributes \<^verbatim>\<open>{a: 1, b: "x"}\<close>, modality
  \<^verbatim>\<open>anat\<close> against \<^verbatim>\<open>func\<close>.\<close>

theorem labels_compared_only_when_asked_witness:
  "getitem_attributes series_anat = Some [(''a'', SInt 1), (''b'', SStr ''x'')]
   \<and> getitem_attributes series_func = Some [(''a'', SInt 1), (''b'', SStr ''x'')]
   \<and> distinct (map fst [(''a'', SInt 1), (''b'', SStr ''x'')])
   \<and> any_not_none [(''a'', SInt 1), (''b'', SStr ''x'')]
   \<and> Label ''modality'' (SStr ''anat'') \<in> set series_anat
   \<and> getitem_label series_func ''modality'' = Some (SStr ''func'')
   \<and> SStr ''func'' \<noteq> SStr ''anat''
   \<and> exist_series series_anat [series_func] True = Inr False
   \<and> exist_series series_anat [series_func] False = Inr True"
proof -
  have h1: "getitem_attributes series_anat = Some [(''a'', SInt 1), (''b'', SStr ''x'')]"
    by (simp add: series_anat_def)
  have h2: "getitem_attributes series_func = Some [(''a'', SInt 1), (''b'', SStr ''x'')]"
    by (simp add: series_func_def)
  have h3: "distinct (map fst [(''a'', SInt 1), (''b'', SStr ''x'')])"
    by simp
  have h4: "any_not_none [(''a'', SInt 1), (''b'', SStr ''x'')]"
    by (simp add: any_not_none_def)
  have h5: "Label ''modality'' (SStr ''anat'') \<in> set series_anat"
    by (simp add: series_anat_def)
  have h6: "getitem_label series_func ''modality'' = Some (SStr ''func'')"
    by (simp add: series_func_def)
  have h7: "SStr ''func'' \<noteq> SStr ''anat''"
    by simp
  show ?thesis
    using h1 h2 h3 h4 h5 h6 h7 labels_compared_only_when_asked [OF h1 h2 h3 h4 h5 h6 h7]
    by blast
qed

text \<open>
  The claim as stated fails when every attribute is absent: the two records have the
  same attributes \<^verbatim>\<open>{a: None, b: None}\<close> and the modalities \<^verbatim>\<open>anat\<close> and
  \<^verbatim>\<open>func\<close>, and with \<^verbatim>\<open>matchbidslabels\<close> false the answer is \<^verbatim>\<open>False\<close>.
\<close>

theorem labels_all_absent_counterexample:
  "getitem_attributes series_absent_anat = getitem_attributes series_absent_func
   \<and> getitem_label series_absent_anat ''modality'' = Some (SStr ''anat'')
   \<and> getitem_label series_absent_func ''modality'' = Some (SStr ''func'')
   \<and> exist_series series_absent_anat [series_absent_func] False = Inr False"
  by code_simp

text \<open>
  Claim C9. Two calls of \<^verbatim>\<open>exist_series\<close> with the same arguments give the same
  result, whatever their local names held before, and a call leaves the series and the
  list, with its records, as they were. So a second call on the frame the first one
  left gives the same result again.
\<close>

theorem exist_series_idempotent:
  assumes "arguments st' = arguments st"
  shows "snd (exist_series_body st') = snd (exist_series_body st)
         \<and> arg_serieslist (fst (exist_series_body st)) = arg_serieslist st
         \<and> arg_series (fst (exist_series_body st)) = arg_series st
         \<and> snd (exist_series_body (fst (exist_series_body st))) = snd (exist_series_body st)"
  using assms exist_series_body_refines [of st] exist_series_body_refines [of st']
    exist_series_body_refines [of "fst (exist_series_body st)"]
  by (simp add: arguments_def)

text \<open>Two calls on a list whose second record matches.\<close>

theorem exist_series_idempotent_witness:
  "arguments frame_anat_other = arguments frame_anat
   \<and> snd (exist_series_body frame_anat) = Inr True
   \<and> snd (exist_series_body frame_anat_other) = Inr True
   \<and> arg_serieslist (fst (exist_series_body frame_anat)) = [series_func, series_anat]
   \<and> arg_series (fst (exist_series_body frame_anat)) = series_anat
   \<and> snd (exist_series_body (fst (exist_series_body frame_anat))) = Inr True"
proof -
  have h: "arguments frame_anat_other = arguments frame_anat"
    by (simp add: arguments_def frame_anat_def frame_anat_other_def)
  have r: "snd (exist_series_body frame_anat) = Inr True"
    by code_simp
  have a: "arg_serieslist frame_anat = [series_func, series_anat]"
    "arg_series frame_anat = series_anat"
    by (simp_all add: frame_anat_def)
  show ?thesis
    using h r a exist_series_idempotent [OF h] by simp
qed

end
